theory Spec2Isabelle
  imports Complex_Main "HOL-Library.AList"
begin

section \<open>Conventions of the embedding\<close>

text \<open>
  The trading bot is Python. Its \<^verbatim>\<open>float\<close> values (prices, equity, risk amounts) are
  modelled as exact rationals, so every statement below is about the arithmetic the code
  writes down, not about IEEE rounding. Python \<^verbatim>\<open>int\<close> is \<^typ>\<open>int\<close>, \<^verbatim>\<open>str\<close> is
  \<^typ>\<open>string\<close>, a \<^verbatim>\<open>dict\<close> is an association list in insertion order, updated with
  \<^const>\<open>AList.update\<close> and \<^const>\<open>AList.delete\<close>. An exception is a value of
  \<open>py_error\<close> on the left of a sum. Wall-clock readings (\<^verbatim>\<open>datetime.now()\<close>,
  \<^verbatim>\<open>date.today()\<close>) and answers of the broker are arguments of the functions that read them.
\<close>

datatype py_error = ZeroDivisionError | RuntimeError | JSONDecodeError | OSError

text \<open>Seconds since some epoch, and days since some epoch.\<close>

type_synonym timestamp = rat
type_synonym date = int

definition py_int :: "rat \<Rightarrow> int" where
  \<comment> \<open>Python's \<^verbatim>\<open>int(x)\<close> on a float: truncation toward zero.\<close>
  "py_int x = (if 0 \<le> x then \<lfloor>x\<rfloor> else \<lceil>x\<rceil>)"

section \<open>config.py\<close>

definition RISK_PER_TRADE :: rat where "RISK_PER_TRADE = 0.0075"
definition MIN_RISK_PER_TRADE :: rat where "MIN_RISK_PER_TRADE = 0.005"
definition MAX_RISK_PER_TRADE :: rat where "MAX_RISK_PER_TRADE = 0.01"
definition MAX_CONCURRENT_POSITIONS :: int where "MAX_CONCURRENT_POSITIONS = 5"
definition TOTAL_OPEN_RISK_CAP :: rat where "TOTAL_OPEN_RISK_CAP = 0.035"
definition MIN_STOP_SPREAD_MULTIPLIER :: rat where "MIN_STOP_SPREAD_MULTIPLIER = 3"
definition MIN_STOP_PERCENT :: rat where "MIN_STOP_PERCENT = 0.005"
definition MAX_CONSECUTIVE_LOSSES :: int where "MAX_CONSECUTIVE_LOSSES = 3"
definition TSL_HIGH_VOL_ATR_MULT :: rat where "TSL_HIGH_VOL_ATR_MULT = 1.5"
definition TSL_LOW_VOL_ATR_MULT :: rat where "TSL_LOW_VOL_ATR_MULT = 2.5"
definition MAX_DAILY_LOSS :: rat where "MAX_DAILY_LOSS = 0.03"
definition VIX_THRESHOLD :: rat where "VIX_THRESHOLD = 30"
definition SPY_ATR_CIRCUIT_BREAKER_MULT :: rat where "SPY_ATR_CIRCUIT_BREAKER_MULT = 2.0"
definition EQUITY_CURVE_LOOKBACK :: nat where "EQUITY_CURVE_LOOKBACK = 20"
definition EQUITY_CURVE_BOOST :: rat where "EQUITY_CURVE_BOOST = 0.25"
definition DRAWDOWN_RISK_REDUCTION :: rat where "DRAWDOWN_RISK_REDUCTION = 0.50"
definition KILL_SWITCH_ERROR_COUNT :: int where "KILL_SWITCH_ERROR_COUNT = 3"
definition KILL_SWITCH_WINDOW_MINUTES :: rat where "KILL_SWITCH_WINDOW_MINUTES = 10"
definition TRADING_UNIVERSE :: "string list" where
  "TRADING_UNIVERSE =
     [''AAPL'', ''MSFT'', ''GOOGL'', ''AMZN'', ''NVDA'', ''META'', ''TSLA'', ''BRK.B'', ''JPM'', ''V'',
      ''UNH'', ''XOM'', ''JNJ'', ''WMT'', ''MA'', ''PG'', ''HD'', ''CVX'', ''MRK'', ''ABBV'']"

section \<open>indicators.py\<close>

definition iloc :: "'a list \<Rightarrow> int \<Rightarrow> 'a" where
  \<comment> \<open>pandas positional access \<^verbatim>\<open>s.iloc[i]\<close>; a negative index counts from the end. Every
      call below is guarded by a length test that keeps the index in range.\<close>
  "iloc s i = (if i < 0 then s ! nat (int (length s) + i) else s ! nat i)"

definition detect_ema_crossover :: "rat list \<Rightarrow> rat list \<Rightarrow> bool \<times> bool" where
  "detect_ema_crossover fast_ema slow_ema =
     (if length fast_ema < 2 \<or> length slow_ema < 2 then (False, False)
      else
        let prev_fast = iloc fast_ema (- 2);
            prev_slow = iloc slow_ema (- 2);
            curr_fast = iloc fast_ema (- 1);
            curr_slow = iloc slow_ema (- 1);
            bullish_cross = (prev_fast \<le> prev_slow \<and> curr_fast > curr_slow);
            bearish_cross = (prev_fast \<ge> prev_slow \<and> curr_fast < curr_slow)
        in (bullish_cross, bearish_cross))"

definition calculate_trailing_stop ::
  "rat \<Rightarrow> rat \<Rightarrow> rat \<Rightarrow> string \<Rightarrow> bool \<Rightarrow> rat \<Rightarrow> rat \<Rightarrow> rat" where
  \<comment> \<open>The last two arguments are the keyword arguments \<^verbatim>\<open>high_vol_mult=1.5\<close> and
      \<^verbatim>\<open>low_vol_mult=2.5\<close>, which no caller overrides.\<close>
  "calculate_trailing_stop entry_price current_price atr volatility_regime is_long
       high_vol_mult low_vol_mult =
     (let atr_mult = (if volatility_regime = ''high'' then high_vol_mult else low_vol_mult);
          stop_distance = atr * atr_mult
      in if is_long then current_price - stop_distance else current_price + stop_distance)"

definition calculate_position_size :: "rat \<Rightarrow> rat \<Rightarrow> rat \<Rightarrow> rat \<Rightarrow> int" where
  "calculate_position_size account_equity risk_percent entry_price stop_price =
     (let stop_distance = \<bar>entry_price - stop_price\<bar>
      in if stop_distance = 0 then 0
         else
           let risk_amount = account_equity * risk_percent;
               shares = py_int (risk_amount / stop_distance)
           in max 1 shares)"

definition polyfit_slope :: "rat list \<Rightarrow> rat list \<Rightarrow> rat" where
  \<comment> \<open>\<^verbatim>\<open>numpy.polyfit(x, y, 1)[0]\<close>: the slope of the least-squares line through the points.\<close>
  "polyfit_slope x y =
     (let n = of_nat (length x);
          sx = sum_list x;
          sy = sum_list y;
          sxy = sum_list (map2 (*) x y);
          sxx = sum_list (map2 (*) x x)
      in (n * sxy - sx * sy) / (n * sxx - sx * sx))"

definition calculate_equity_curve_slope :: "rat list \<Rightarrow> nat \<Rightarrow> rat" where
  "calculate_equity_curve_slope equity_values lookback =
     (if length equity_values < lookback then 0
      else
        let recent = (if lookback = 0 then equity_values
                      else drop (length equity_values - lookback) equity_values);
            x = map of_nat [0..<length recent]
        in if iloc recent 0 = 0 then 0
           else
             let normalized = map (\<lambda>v. (v / iloc recent 0 - 1) * 100) recent
             in polyfit_slope x normalized)"

definition is_in_drawdown :: "rat \<Rightarrow> rat \<Rightarrow> rat \<Rightarrow> bool" where
  \<comment> \<open>The third argument is the keyword argument \<^verbatim>\<open>threshold=0.02\<close>.\<close>
  "is_in_drawdown current_equity peak_equity threshold =
     (if peak_equity = 0 then False
      else
        let drawdown = (peak_equity - current_equity) / peak_equity
        in drawdown > threshold)"

section \<open>risk_manager.py\<close>

record risk_manager =
  daily_pnl :: rat
  daily_start_equity :: rat
  consecutive_losses :: int
  peak_equity :: rat
  equity_history :: "(date \<times> rat) list"
  trade_risk :: "(string \<times> rat) list"
  paused_until_next_session :: bool
  circuit_breaker_active :: bool
  last_session_date :: "date option"

definition RiskManager_init :: risk_manager where
  "RiskManager_init =
     \<lparr> daily_pnl = 0, daily_start_equity = 0, consecutive_losses = 0, peak_equity = 0,
       equity_history = [], trade_risk = [], paused_until_next_session = False,
       circuit_breaker_active = False, last_session_date = None \<rparr>"

definition initialize_day :: "date \<Rightarrow> rat \<Rightarrow> risk_manager \<Rightarrow> risk_manager" where
  \<comment> \<open>The first argument is what \<^verbatim>\<open>date.today()\<close> returns.\<close>
  "initialize_day today equity rm =
     (let rm1 = (if last_session_date rm \<noteq> Some today
                 then rm\<lparr> daily_pnl := 0, daily_start_equity := equity,
                          paused_until_next_session := False, circuit_breaker_active := False,
                          consecutive_losses := 0, last_session_date := Some today \<rparr>
                 else rm);
          rm2 = (if equity > peak_equity rm1 then rm1\<lparr> peak_equity := equity \<rparr> else rm1);
          rm3 = rm2\<lparr> equity_history := equity_history rm2 @ [(today, equity)] \<rparr>
      in if length (equity_history rm3) > 30
         then rm3\<lparr> equity_history :=
                     drop (length (equity_history rm3) - 30) (equity_history rm3) \<rparr>
         else rm3)"

definition update_daily_pnl :: "rat \<Rightarrow> risk_manager \<Rightarrow> risk_manager" where
  "update_daily_pnl pnl_change rm = rm\<lparr> daily_pnl := daily_pnl rm + pnl_change \<rparr>"

definition record_trade_result :: "bool \<Rightarrow> risk_manager \<Rightarrow> risk_manager" where
  "record_trade_result is_win rm =
     (if is_win then rm\<lparr> consecutive_losses := 0 \<rparr>
      else
        let rm1 = rm\<lparr> consecutive_losses := consecutive_losses rm + 1 \<rparr>
        in if consecutive_losses rm1 \<ge> MAX_CONSECUTIVE_LOSSES
           then rm1\<lparr> paused_until_next_session := True \<rparr>
           else rm1)"

definition check_daily_loss_limit :: "risk_manager \<Rightarrow> bool \<times> risk_manager" where
  "check_daily_loss_limit rm =
     (if daily_start_equity rm = 0 then (False, rm)
      else
        let daily_return = daily_pnl rm / daily_start_equity rm
        in if daily_return \<le> - MAX_DAILY_LOSS
           then (True, rm\<lparr> paused_until_next_session := True \<rparr>)
           else (False, rm))"

definition check_circuit_breaker ::
  "rat option \<Rightarrow> rat \<Rightarrow> rat \<Rightarrow> risk_manager \<Rightarrow> bool \<times> risk_manager" where
  \<comment> \<open>\<^verbatim>\<open>if vix and vix > ...\<close>: a \<^verbatim>\<open>vix\<close> of \<^verbatim>\<open>None\<close> or \<^verbatim>\<open>0.0\<close> is falsy.\<close>
  "check_circuit_breaker vix spy_atr_percent spy_atr_median rm =
     (if (case vix of None \<Rightarrow> False | Some v \<Rightarrow> v \<noteq> 0 \<and> v > VIX_THRESHOLD)
      then (True, rm\<lparr> circuit_breaker_active := True \<rparr>)
      else if spy_atr_percent > spy_atr_median * SPY_ATR_CIRCUIT_BREAKER_MULT
      then (True, rm\<lparr> circuit_breaker_active := True \<rparr>)
      else (False, rm\<lparr> circuit_breaker_active := False \<rparr>))"

definition can_enter_new_trade :: "risk_manager \<Rightarrow> bool" where
  "can_enter_new_trade rm =
     (if paused_until_next_session rm then False
      else if circuit_breaker_active rm then False
      else True)"

definition get_adjusted_risk_percent :: "risk_manager \<Rightarrow> rat \<Rightarrow> rat" where
  "get_adjusted_risk_percent rm current_equity =
     (let base_risk = RISK_PER_TRADE
      in if is_in_drawdown current_equity (peak_equity rm) 0.02
         then
           let adjusted_risk = base_risk * (1 - DRAWDOWN_RISK_REDUCTION)
           in max MIN_RISK_PER_TRADE adjusted_risk
         else if length (equity_history rm) \<ge> EQUITY_CURVE_LOOKBACK
                 \<and> calculate_equity_curve_slope (map snd (equity_history rm))
                       EQUITY_CURVE_LOOKBACK > 0.1
         then
           let adjusted_risk = base_risk * (1 + EQUITY_CURVE_BOOST)
           in min MAX_RISK_PER_TRADE adjusted_risk
         else base_risk)"

definition widened_stop_distance :: "rat \<Rightarrow> rat \<Rightarrow> rat \<Rightarrow> rat" where
  \<comment> \<open>The first statements of \<^verbatim>\<open>RiskManager.calculate_position_size\<close>: the stop distance
      after the minimum is enforced.\<close>
  "widened_stop_distance entry_price stop_price median_spread =
     (let stop_distance = \<bar>entry_price - stop_price\<bar>;
          min_stop_spread = median_spread * MIN_STOP_SPREAD_MULTIPLIER;
          min_stop_percent = entry_price * MIN_STOP_PERCENT;
          min_stop = max min_stop_spread min_stop_percent
      in if stop_distance < min_stop then min_stop else stop_distance)"

definition RiskManager_calculate_position_size ::
  "risk_manager \<Rightarrow> rat \<Rightarrow> rat \<Rightarrow> rat \<Rightarrow> rat \<Rightarrow> py_error + (int \<times> rat)" where
  \<comment> \<open>\<^verbatim>\<open>RiskManager.calculate_position_size\<close>; the division raises when the stop distance
      is zero.\<close>
  "RiskManager_calculate_position_size rm account_equity entry_price stop_price median_spread =
     (let stop_distance = widened_stop_distance entry_price stop_price median_spread;
          risk_percent = get_adjusted_risk_percent rm account_equity;
          risk_amount = account_equity * risk_percent
      in if stop_distance = 0 then Inl ZeroDivisionError
         else
           let shares = max 1 (py_int (risk_amount / stop_distance));
               actual_risk = of_int shares * stop_distance
           in Inr (shares, actual_risk))"

definition total_open_risk :: "risk_manager \<Rightarrow> rat" where
  \<comment> \<open>\<^verbatim>\<open>sum(self.trade_risk.values())\<close>\<close>
  "total_open_risk rm = sum_list (map snd (trade_risk rm))"

definition check_total_risk_capacity :: "risk_manager \<Rightarrow> rat \<Rightarrow> rat \<Rightarrow> bool" where
  "check_total_risk_capacity rm proposed_risk account_equity =
     (let current_total_risk = total_open_risk rm;
          max_total_risk = account_equity * TOTAL_OPEN_RISK_CAP
      in if current_total_risk + proposed_risk > max_total_risk then False else True)"

definition check_position_limit :: "int \<Rightarrow> bool" where
  "check_position_limit current_positions =
     (if current_positions \<ge> MAX_CONCURRENT_POSITIONS then False else True)"

definition register_trade_risk :: "string \<Rightarrow> rat \<Rightarrow> risk_manager \<Rightarrow> risk_manager" where
  "register_trade_risk symbol risk_amount rm =
     rm\<lparr> trade_risk := AList.update symbol risk_amount (trade_risk rm) \<rparr>"

definition unregister_trade_risk :: "string \<Rightarrow> risk_manager \<Rightarrow> risk_manager" where
  "unregister_trade_risk symbol rm =
     (if symbol \<in> fst ` set (trade_risk rm)
      then rm\<lparr> trade_risk := AList.delete symbol (trade_risk rm) \<rparr>
      else rm)"

section \<open>order_manager.py: error tracking for the kill-switch\<close>

record order_manager =
  error_count :: int
  last_error_time :: "timestamp option"

definition OrderManager_init :: order_manager where
  "OrderManager_init = \<lparr> error_count = 0, last_error_time = None \<rparr>"

definition track_error :: "timestamp \<Rightarrow> order_manager \<Rightarrow> order_manager" where
  \<comment> \<open>\<^verbatim>\<open>_track_error\<close>; the first argument is what \<^verbatim>\<open>datetime.now()\<close> returns.\<close>
  "track_error now om =
     (let om1 = (case last_error_time om of
                   Some t \<Rightarrow>
                     if now - t > KILL_SWITCH_WINDOW_MINUTES * 60
                     then om\<lparr> error_count := 0 \<rparr> else om
                 | None \<Rightarrow> om)
      in om1\<lparr> error_count := error_count om1 + 1, last_error_time := Some now \<rparr>)"

definition should_trigger_kill_switch :: "order_manager \<Rightarrow> bool" where
  "should_trigger_kill_switch om = (error_count om \<ge> KILL_SWITCH_ERROR_COUNT)"

fun track_errors :: "timestamp list \<Rightarrow> order_manager \<Rightarrow> order_manager" where
  \<comment> \<open>One call of \<^verbatim>\<open>_track_error\<close> per failed broker call, at the given clock readings.\<close>
  "track_errors [] om = om"
| "track_errors (now # later) om = track_errors later (track_error now om)"

fun gaps_within_window :: "timestamp list \<Rightarrow> bool" where
  \<comment> \<open>Each reading is at most the window after the one before it.\<close>
  "gaps_within_window (a # b # ts) =
     (b - a \<le> KILL_SWITCH_WINDOW_MINUTES * 60 \<and> gaps_within_window (b # ts))"
| "gaps_within_window ts = True"

section \<open>state_manager.py\<close>

text \<open>
  The state is the dictionary that \<^verbatim>\<open>StateManager\<close> keeps in \<^verbatim>\<open>self.state\<close> and rewrites
  to \<^verbatim>\<open>bot_state.json\<close> at the end of every mutator (\<^verbatim>\<open>save_state\<close>). The time stamps it
  carries for the log (\<^verbatim>\<open>last_run\<close>, \<^verbatim>\<open>updated_at\<close>, \<^verbatim>\<open>entry_time\<close>, \<^verbatim>\<open>optimized_at\<close>,
  \<^verbatim>\<open>last_universe_update\<close>) are left out, so \<^verbatim>\<open>save_state\<close> does not change the modelled
  state. Keys that two dictionaries share get a prefix.
\<close>

record trade =
  symbol :: string
  side :: string
  entry_price :: rat
  qty :: int
  stop_price :: rat
  risk_amount :: rat
  ema_fast :: int
  ema_slow :: int
  vol_regime :: string
  pyramid_adds :: int
  partial_taken :: bool

record pending_stop =
  order_id :: string
  pending_stop_price :: rat

record position =
  \<comment> \<open>One entry of \<^verbatim>\<open>OrderManager.get_positions()\<close>.\<close>
  pos_symbol :: string
  pos_qty :: rat
  pos_side :: string
  avg_entry_price :: rat
  market_value :: rat

record bot_state =
  state_last_session_date :: "date option"
  active_trades :: "(string \<times> trade) list"
  pending_stops :: "(string \<times> pending_stop) list"
  state_daily_pnl :: rat
  state_daily_start_equity :: rat
  state_consecutive_losses :: int
  state_peak_equity :: rat
  trade_counter :: int
  ema_periods :: "(string \<times> int \<times> int) list"
  universe :: "string list"
  state_error_count :: int
  kill_switch_active :: bool
  state_paused_until_next_session :: bool
  state_circuit_breaker_active :: bool
  bars_since_entry :: "(string \<times> int) list"
  observed_slippage :: "(string \<times> rat) list"

definition default_state :: bot_state where
  "default_state =
     \<lparr> state_last_session_date = None, active_trades = [], pending_stops = [],
       state_daily_pnl = 0, state_daily_start_equity = 0, state_consecutive_losses = 0,
       state_peak_equity = 0, trade_counter = 0, ema_periods = [],
       universe = TRADING_UNIVERSE, state_error_count = 0, kill_switch_active = False,
       state_paused_until_next_session = False, state_circuit_breaker_active = False,
       bars_since_entry = [], observed_slippage = [] \<rparr>"

datatype state_file =
  NoFile
  | Unreadable py_error
  | Stored bot_state

text \<open>
  What \<^verbatim>\<open>StateManager.__init__\<close> finds at \<^verbatim>\<open>state_path\<close>: no file; a file on which
  \<^verbatim>\<open>open\<close> or \<^verbatim>\<open>json.load\<close> raises the given exception; a file that parses to a state.
\<close>

definition path_exists :: "state_file \<Rightarrow> bool" where
  "path_exists f = (f \<noteq> NoFile)"

definition json_load :: "state_file \<Rightarrow> py_error + bot_state" where
  \<comment> \<open>The body of the \<^verbatim>\<open>try\<close> block: \<^verbatim>\<open>open\<close> followed by \<^verbatim>\<open>json.load\<close>.\<close>
  "json_load f = (case f of NoFile \<Rightarrow> Inl OSError | Unreadable e \<Rightarrow> Inl e | Stored s \<Rightarrow> Inr s)"

definition load_state :: "state_file \<Rightarrow> py_error + bot_state" where
  \<comment> \<open>\<^verbatim>\<open>_load_state\<close>. \<^verbatim>\<open>except Exception\<close> logs the error and falls through to the last
      line, which returns the default state.\<close>
  "load_state f =
     (if path_exists f then
        (case json_load f of
           Inr state \<Rightarrow> Inr state
         | Inl e \<Rightarrow> Inr default_state)
      else Inr default_state)"

definition get_active_trades :: "bot_state \<Rightarrow> (string \<times> trade) list" where
  "get_active_trades st = active_trades st"

definition get_pending_stops :: "bot_state \<Rightarrow> (string \<times> pending_stop) list" where
  "get_pending_stops st = pending_stops st"

definition is_kill_switch_active :: "bot_state \<Rightarrow> bool" where
  "is_kill_switch_active st = kill_switch_active st"

definition update_trade :: "string \<Rightarrow> trade \<Rightarrow> bot_state \<Rightarrow> bot_state" where
  "update_trade trade_id trade_data st =
     st\<lparr> active_trades := AList.update trade_id trade_data (active_trades st) \<rparr>"

definition remove_trade :: "string \<Rightarrow> bot_state \<Rightarrow> bot_state" where
  "remove_trade trade_id st =
     (let st1 = (if trade_id \<in> fst ` set (active_trades st)
                 then st\<lparr> active_trades := AList.delete trade_id (active_trades st) \<rparr>
                 else st)
      in if trade_id \<in> fst ` set (bars_since_entry st1)
         then st1\<lparr> bars_since_entry := AList.delete trade_id (bars_since_entry st1) \<rparr>
         else st1)"

definition update_stop :: "string \<Rightarrow> string \<Rightarrow> rat \<Rightarrow> bot_state \<Rightarrow> bot_state" where
  "update_stop ticker stop_order_id new_price st =
     st\<lparr> pending_stops :=
           AList.update ticker \<lparr> order_id = stop_order_id, pending_stop_price = new_price \<rparr>
             (pending_stops st) \<rparr>"

record discrepancies =
  missing_in_state :: "position list"
  missing_in_broker :: "trade list"
  qty_mismatch :: "string list"

text \<open>
  Nothing is ever appended to \<^verbatim>\<open>discrepancies['qty_mismatch']\<close>, so the source does not
  fix the type of its elements; the model takes symbols.
\<close>

fun report_untracked :: "string set \<Rightarrow> position list \<Rightarrow> discrepancies \<Rightarrow> discrepancies" where
  \<comment> \<open>The first loop of \<^verbatim>\<open>reconcile_positions\<close>: positions at the broker but not in state.\<close>
  "report_untracked state_symbols [] d = d"
| "report_untracked state_symbols (pos # rest) d =
     (if pos_symbol pos \<notin> state_symbols
      then report_untracked state_symbols rest
             (d\<lparr> missing_in_state := missing_in_state d @ [pos] \<rparr>)
      else report_untracked state_symbols rest d)"

fun purge_stale ::
  "string set \<Rightarrow> (string \<times> trade) list \<Rightarrow> discrepancies \<Rightarrow> bot_state
     \<Rightarrow> (py_error + discrepancies) \<times> bot_state" where
  \<comment> \<open>The second loop, \<^verbatim>\<open>for trade_id, trade in state_trades.items()\<close>. \<^verbatim>\<open>state_trades\<close>
      is the dictionary \<^verbatim>\<open>self.state['active_trades']\<close> itself, and \<^verbatim>\<open>remove_trade\<close>
      deletes from it inside the loop. CPython's dictionary iterator compares the size of
      the dictionary with the size it started from before it yields anything, also at the
      step that would end the loop, and raises \<^verbatim>\<open>RuntimeError: dictionary changed size
      during iteration\<close>. So the first stale trade is appended and removed, and the loop's
      next step raises; the local \<^verbatim>\<open>discrepancies\<close> is lost with the frame.\<close>
  "purge_stale broker_symbols [] d st = (Inr d, st)"
| "purge_stale broker_symbols ((trade_id, trade) # rest) d st =
     (if symbol trade \<notin> broker_symbols
      then (Inl RuntimeError, remove_trade trade_id st)
      else purge_stale broker_symbols rest d st)"

definition reconcile_positions ::
  "position list \<Rightarrow> bot_state \<Rightarrow> (py_error + discrepancies) \<times> bot_state" where
  "reconcile_positions broker_positions st =
     (let d0 = \<lparr> missing_in_state = [], missing_in_broker = [], qty_mismatch = [] \<rparr>;
          state_trades = get_active_trades st;
          state_symbols = set (map (\<lambda>(trade_id, t). symbol t) state_trades);
          broker_symbols = set (map pos_symbol broker_positions);
          d1 = report_untracked state_symbols broker_positions d0
      in purge_stale broker_symbols state_trades d1 st)"

section \<open>trading_engine.py\<close>

subsection \<open>Entries and exits as the risk manager sees them\<close>

datatype entry_outcome = Raised py_error | RiskCapExceeded | Abandoned | Registered

definition execute_entry ::
  "string \<Rightarrow> rat \<Rightarrow> rat \<Rightarrow> rat \<Rightarrow> rat \<Rightarrow> bool \<Rightarrow> risk_manager
     \<Rightarrow> entry_outcome \<times> risk_manager" where
  \<comment> \<open>\<^verbatim>\<open>_execute_entry\<close>, as far as it reads or writes the risk manager. The arguments are
      the symbol, the account equity, the signal's entry price, stop price and spread in
      basis points, and whether the steps between the risk-cap check and
      \<^verbatim>\<open>register_trade_risk\<close> (sector cap, order submission, fill) all go through; each of
      them returns early otherwise.\<close>
  "execute_entry ticker equity price stop spread completes rm =
     (case RiskManager_calculate_position_size rm equity price stop (spread * price / 10000) of
        Inl e \<Rightarrow> (Raised e, rm)
      | Inr (shares, risk) \<Rightarrow>
          if \<not> check_total_risk_capacity rm risk equity then (RiskCapExceeded, rm)
          else if \<not> completes then (Abandoned, rm)
          else (Registered, register_trade_risk ticker risk rm))"

definition exit_trade :: "string \<Rightarrow> rat \<Rightarrow> bool \<Rightarrow> risk_manager \<Rightarrow> risk_manager" where
  \<comment> \<open>\<^verbatim>\<open>_exit_trade\<close>, as far as it writes the risk manager: nothing when
      \<^verbatim>\<open>close_position\<close> returned \<^verbatim>\<open>None\<close>, else the three calls at its end.\<close>
  "exit_trade ticker pnl was_closed rm =
     (if \<not> was_closed then rm
      else record_trade_result (pnl \<ge> 0) (update_daily_pnl pnl (unregister_trade_risk ticker rm)))"

datatype risk_event =
  InitializeDay date rat
  | ExecuteEntry string rat rat rat rat bool
  | ExitTrade string rat bool
  | CheckDailyLossLimit
  | CheckCircuitBreaker "rat option" rat rat

fun risk_step :: "risk_event \<Rightarrow> risk_manager \<Rightarrow> risk_manager" where
  "risk_step (InitializeDay today equity) rm = initialize_day today equity rm"
| "risk_step (ExecuteEntry ticker equity price stop spread completes) rm =
     snd (execute_entry ticker equity price stop spread completes rm)"
| "risk_step (ExitTrade ticker pnl was_closed) rm = exit_trade ticker pnl was_closed rm"
| "risk_step CheckDailyLossLimit rm = snd (check_daily_loss_limit rm)"
| "risk_step (CheckCircuitBreaker vix spy_atr_percent spy_atr_median) rm =
     snd (check_circuit_breaker vix spy_atr_percent spy_atr_median rm)"

fun risk_run :: "risk_event list \<Rightarrow> risk_manager \<Rightarrow> risk_manager" where
  "risk_run [] rm = rm"
| "risk_run (ev # evs) rm = risk_run evs (risk_step ev rm)"

fun approved :: "risk_event \<Rightarrow> risk_manager \<Rightarrow> rat option" where
  \<comment> \<open>The equity against which \<^verbatim>\<open>check_total_risk_capacity\<close> approved the entry, if the
      event is an entry and the check returned \<^verbatim>\<open>True\<close>.\<close>
  "approved (ExecuteEntry ticker equity price stop spread completes) rm =
     (case fst (execute_entry ticker equity price stop spread completes rm) of
        Abandoned \<Rightarrow> Some equity
      | Registered \<Rightarrow> Some equity
      | _ \<Rightarrow> None)"
| "approved _ rm = None"

fun approvals :: "risk_event list \<Rightarrow> risk_manager \<Rightarrow> (rat \<times> rat) list" where
  \<comment> \<open>For each approved entry of a run: the equity it was approved against and the sum of
      the registered open risk right after that \<^verbatim>\<open>_execute_entry\<close>.\<close>
  "approvals [] rm = []"
| "approvals (ev # evs) rm =
     (let rm' = risk_step ev rm
      in (case approved ev rm of
            Some equity \<Rightarrow> [(equity, total_open_risk rm')]
          | None \<Rightarrow> [])
         @ approvals evs rm')"

subsection \<open>The trailing-stop ratchet\<close>

datatype broker_call =
  CancelOrder string
  | SubmitStopOrder string int string rat

record engine =
  state_manager :: bot_state
  broker_calls :: "broker_call list"

text \<open>
  \<open>broker_calls\<close> is the sequence of order calls the engine has sent to the broker. The
  answer of \<^verbatim>\<open>submit_stop_order\<close> (the new order's id, or \<^verbatim>\<open>None\<close> when the call failed) is
  an argument.
\<close>

definition engine_update_stop ::
  "string option \<Rightarrow> string \<Rightarrow> trade \<Rightarrow> rat \<Rightarrow> engine \<Rightarrow> engine" where
  \<comment> \<open>\<^verbatim>\<open>TradingEngine._update_stop\<close>\<close>
  "engine_update_stop stop_order trade_id trd new_stop eng =
     (let ticker = symbol trd;
          is_long = (side trd = ''long'');
          pending = get_pending_stops (state_manager eng);
          eng1 = (case map_of pending ticker of
                    Some ps \<Rightarrow> eng\<lparr> broker_calls := broker_calls eng @ [CancelOrder (order_id ps)] \<rparr>
                  | None \<Rightarrow> eng);
          stop_side = (if is_long then ''sell'' else ''buy'');
          eng2 = eng1\<lparr> broker_calls :=
                         broker_calls eng1 @ [SubmitStopOrder ticker (qty trd) stop_side new_stop] \<rparr>
      in case stop_order of
           None \<Rightarrow> eng2
         | Some new_id \<Rightarrow>
             let trd' = trd\<lparr> stop_price := new_stop \<rparr>
             in eng2\<lparr> state_manager :=
                        update_stop ticker new_id new_stop
                          (update_trade trade_id trd' (state_manager eng2)) \<rparr>)"

definition more_favorable :: "bool \<Rightarrow> rat \<Rightarrow> rat \<Rightarrow> bool" where
  \<comment> \<open>The test of \<^verbatim>\<open>_manage_exits\<close> under the comment "Only update if more favorable".\<close>
  "more_favorable is_long new_stop current_stop =
     ((is_long \<and> new_stop > current_stop) \<or> (\<not> is_long \<and> new_stop < current_stop))"

definition ratchet_stop ::
  "string option \<Rightarrow> string \<Rightarrow> trade \<Rightarrow> rat \<Rightarrow> rat \<Rightarrow> engine \<Rightarrow> engine" where
  \<comment> \<open>The block "Update trailing stop" of \<^verbatim>\<open>_manage_exits\<close>, for one open trade; the
      arguments after the trade are the last close and the last ATR value of its bars.\<close>
  "ratchet_stop stop_order trade_id trd current_price atr eng =
     (let is_long = (side trd = ''long'');
          new_stop = calculate_trailing_stop (entry_price trd) current_price atr
                       (vol_regime trd) is_long 1.5 2.5;
          current_stop = stop_price trd
      in if more_favorable is_long new_stop current_stop
         then engine_update_stop stop_order trade_id trd new_stop eng
         else eng)"

section \<open>Notions used in the statements\<close>

subsection \<open>Kinds of risk events\<close>

text \<open>
  A session rollover is a call of \<^verbatim>\<open>initialize_day\<close>; a trade result is recorded by an
  exit whose position was closed, a win when the profit is not negative (\<^verbatim>\<open>pnl >= 0\<close>).
\<close>

fun is_rollover :: "risk_event \<Rightarrow> bool" where
  "is_rollover (InitializeDay today equity) = True"
| "is_rollover _ = False"

fun is_win :: "risk_event \<Rightarrow> bool" where
  "is_win (ExitTrade ticker pnl was_closed) = (was_closed \<and> pnl \<ge> 0)"
| "is_win _ = False"

fun is_loss :: "risk_event \<Rightarrow> bool" where
  "is_loss (ExitTrade ticker pnl was_closed) = (was_closed \<and> pnl < 0)"
| "is_loss _ = False"

subsection \<open>A sample session\<close>

text \<open>
  One session of the risk manager: five entries are approved (one of them abandoned before
  it is registered), a sixth is turned down by the cap, and after an exit a further entry
  is approved against a lower equity.
\<close>

definition session_events :: "risk_event list" where
  "session_events =
     [InitializeDay 1 100000,
      ExecuteEntry ''AAPL'' 100000 100 97 5 True,
      ExecuteEntry ''MSFT'' 100000 100 97 5 True,
      ExecuteEntry ''JPM'' 100000 100 97 5 False,
      ExecuteEntry ''NVDA'' 100000 100 97 5 True,
      ExecuteEntry ''XOM'' 100000 100 97 5 True,
      ExecuteEntry ''WMT'' 100000 100 97 5 True,
      ExitTrade ''AAPL'' 40 True,
      ExecuteEntry ''WMT'' 99000 100 97 5 True]"

subsection \<open>Sample data\<close>

text \<open>A long trade, a broker position and an engine holding one trade with its stop order.\<close>

definition sample_trade :: "string \<Rightarrow> int \<Rightarrow> trade" where
  "sample_trade ticker shares =
     \<lparr> symbol = ticker, side = ''long'', entry_price = 100, qty = shares, stop_price = 97,
       risk_amount = 750, ema_fast = 9, ema_slow = 21, vol_regime = ''normal'',
       pyramid_adds = 0, partial_taken = False \<rparr>"

definition sample_position :: "string \<Rightarrow> rat \<Rightarrow> position" where
  "sample_position ticker shares =
     \<lparr> pos_symbol = ticker, pos_qty = shares, pos_side = ''long'', avg_entry_price = 100,
       market_value = 100 * shares \<rparr>"

definition sample_engine :: engine where
  "sample_engine =
     \<lparr> state_manager =
         default_state\<lparr> active_trades := [(''T1'', sample_trade ''AAPL'' 250)],
                        pending_stops :=
                          [(''AAPL'', \<lparr> order_id = ''S1'', pending_stop_price = 97 \<rparr>)] \<rparr>,
       broker_calls = [] \<rparr>"

section \<open>Properties of the indicators\<close>

lemma iloc_minus_1: "xs \<noteq> [] \<Longrightarrow> iloc xs (- 1) = last xs"
  by (simp add: iloc_def last_conv_nth nat_diff_distrib')

lemma iloc_minus_2:
  assumes "2 \<le> length xs"
  shows "iloc xs (- 2) = last (butlast xs)"
proof -
  have "butlast xs \<noteq> []" using assms by (cases xs rule: rev_cases) auto
  then have "last (butlast xs) = butlast xs ! (length (butlast xs) - 1)"
    by (rule last_conv_nth)
  also have "\<dots> = xs ! (length xs - 2)"
    using assms by (simp add: nth_butlast numeral_2_eq_2)
  also have "\<dots> = iloc xs (- 2)" using assms by (simp add: iloc_def nat_diff_distrib')
  finally show ?thesis by simp
qed

text \<open>
  Claim C8. \<^verbatim>\<open>detect_ema_crossover\<close> depends on the last two samples of each series only.
  It reports a bullish cross exactly when both series have at least two samples, the
  previous fast value is at most the previous slow value and the current fast value is
  above the current slow value; a bearish cross exactly in the mirrored situation. With
  fewer than two samples in either series both components are false.
\<close>

theorem detect_ema_crossover_last_two:
  "detect_ema_crossover fast_ema slow_ema =
     (2 \<le> length fast_ema \<and> 2 \<le> length slow_ema
        \<and> last (butlast fast_ema) \<le> last (butlast slow_ema) \<and> last fast_ema > last slow_ema,
      2 \<le> length fast_ema \<and> 2 \<le> length slow_ema
        \<and> last (butlast fast_ema) \<ge> last (butlast slow_ema) \<and> last fast_ema < last slow_ema)"
proof (cases "length fast_ema < 2 \<or> length slow_ema < 2")
  case True
  then show ?thesis by (auto simp: detect_ema_crossover_def)
next
  case False
  then have len: "2 \<le> length fast_ema" "2 \<le> length slow_ema" by auto
  then have ne: "fast_ema \<noteq> []" "slow_ema \<noteq> []" by auto
  show ?thesis
    using len by (simp add: detect_ema_crossover_def Let_def iloc_minus_1 [OF ne(1)]
        iloc_minus_1 [OF ne(2)] iloc_minus_2)
qed

theorem detect_ema_crossover_last_two_witness:
  "detect_ema_crossover [1, 2, 4] [5, 3, 3] = (True, False)
   \<and> detect_ema_crossover [4, 2] [3, 3] = (False, True)
   \<and> detect_ema_crossover [4] [3, 3] = (False, False)"
  using detect_ema_crossover_last_two [of "[1, 2, 4]" "[5, 3, 3]"]
    detect_ema_crossover_last_two [of "[4, 2]" "[3, 3]"]
    detect_ema_crossover_last_two [of "[4]" "[3, 3]"]
  by simp

section \<open>Properties of the risk manager\<close>

lemma is_in_drawdown_below_fraction:
  assumes "0 < peak" and "cur < (1 - thr) * peak"
  shows "is_in_drawdown cur peak thr"
proof -
  have "thr * peak < peak - cur" using assms by (simp add: algebra_simps)
  then have "thr < (peak - cur) / peak" using assms(1) by (simp add: pos_less_divide_eq)
  then show ?thesis using assms(1) by (simp add: is_in_drawdown_def)
qed

text \<open>
  Claim C9. When the current equity is below the peak equity by more than the 2% drawdown
  threshold, \<^verbatim>\<open>get_adjusted_risk_percent\<close> returns the base risk times
  \<open>1 - DRAWDOWN_RISK_REDUCTION\<close>, that is the base risk halved, floored at
  \<open>MIN_RISK_PER_TRADE\<close>; with the configured base 0.0075 and minimum 0.005 this is 0.005.
  Peak equity 100000 with current equity 97000 is such a drawdown and gives 0.005.
\<close>

theorem drawdown_scaling:
  "(0 < peak_equity rm \<and> current_equity < (1 - 0.02) * peak_equity rm \<longrightarrow>
      get_adjusted_risk_percent rm current_equity
        = max MIN_RISK_PER_TRADE (RISK_PER_TRADE * (1 - DRAWDOWN_RISK_REDUCTION))
      \<and> RISK_PER_TRADE * (1 - DRAWDOWN_RISK_REDUCTION) = RISK_PER_TRADE * 0.5
      \<and> get_adjusted_risk_percent rm current_equity = 0.005)
   \<and> is_in_drawdown 97000 100000 0.02
   \<and> get_adjusted_risk_percent (rm\<lparr> peak_equity := 100000 \<rparr>) 97000 = 0.005"
proof -
  have dd: "is_in_drawdown 97000 100000 0.02" by (simp add: is_in_drawdown_def)
  have val: "max MIN_RISK_PER_TRADE (RISK_PER_TRADE * (1 - DRAWDOWN_RISK_REDUCTION)) = 0.005"
    by (simp add: MIN_RISK_PER_TRADE_def RISK_PER_TRADE_def DRAWDOWN_RISK_REDUCTION_def)
  have half: "RISK_PER_TRADE * (1 - DRAWDOWN_RISK_REDUCTION) = RISK_PER_TRADE * 0.5"
    by (simp add: DRAWDOWN_RISK_REDUCTION_def)
  have gen: "get_adjusted_risk_percent r c
               = max MIN_RISK_PER_TRADE (RISK_PER_TRADE * (1 - DRAWDOWN_RISK_REDUCTION))"
    if "is_in_drawdown c (peak_equity r) 0.02" for r c
    using that by (simp add: get_adjusted_risk_percent_def Let_def)
  have ex: "get_adjusted_risk_percent (rm\<lparr> peak_equity := 100000 \<rparr>) 97000 = 0.005"
    using gen [of 97000 "rm\<lparr> peak_equity := 100000 \<rparr>"] dd val by simp
  have main: "get_adjusted_risk_percent rm current_equity
               = max MIN_RISK_PER_TRADE (RISK_PER_TRADE * (1 - DRAWDOWN_RISK_REDUCTION))"
    if "0 < peak_equity rm" "current_equity < (1 - 0.02) * peak_equity rm"
    using gen [OF is_in_drawdown_below_fraction [OF that]] .
  show ?thesis
  proof (intro conjI impI)
    assume h: "0 < peak_equity rm \<and> current_equity < (1 - 0.02) * peak_equity rm"
    then show "get_adjusted_risk_percent rm current_equity
                 = max MIN_RISK_PER_TRADE (RISK_PER_TRADE * (1 - DRAWDOWN_RISK_REDUCTION))"
      using main by blast
    then show "get_adjusted_risk_percent rm current_equity = 0.005"
      using val by (rule trans)
  qed (rule half dd ex)+
qed

theorem drawdown_scaling_witness:
  "0 < peak_equity (RiskManager_init\<lparr> peak_equity := 100000 \<rparr>)
   \<and> (97000::rat) < (1 - 0.02) * peak_equity (RiskManager_init\<lparr> peak_equity := 100000 \<rparr>)
   \<and> get_adjusted_risk_percent (RiskManager_init\<lparr> peak_equity := 100000 \<rparr>) 97000 = 0.005"
  using drawdown_scaling [of "RiskManager_init\<lparr> peak_equity := 100000 \<rparr>" 97000]
  by simp

lemma max_one_py_int: "max 1 (py_int x) = max 1 \<lfloor>x\<rfloor>"
proof (cases "0 \<le> x")
  case True
  then show ?thesis by (simp add: py_int_def)
next
  case False
  then have "\<lceil>x\<rceil> \<le> 0" "\<lfloor>x\<rfloor> \<le> 0" by (simp_all add: ceiling_le_iff floor_le_iff)
  then show ?thesis using False by (simp add: py_int_def)
qed

lemma widened_stop_distance_max:
  "widened_stop_distance entry stop spread
     = max \<bar>entry - stop\<bar> (max (spread * MIN_STOP_SPREAD_MULTIPLIER) (entry * MIN_STOP_PERCENT))"
  by (simp add: widened_stop_distance_def Let_def max_def)

lemma widened_stop_distance_nonneg: "0 \<le> widened_stop_distance entry stop spread"
  by (simp add: widened_stop_distance_max le_max_iff_disj)

lemma widened_stop_distance_pos: "0 < entry \<Longrightarrow> 0 < widened_stop_distance entry stop spread"
  by (simp add: widened_stop_distance_max less_max_iff_disj MIN_STOP_PERCENT_def)

lemma base_risk_at_start: "get_adjusted_risk_percent RiskManager_init equity = RISK_PER_TRADE"
  by (simp add: get_adjusted_risk_percent_def RiskManager_init_def is_in_drawdown_def
      EQUITY_CURVE_LOOKBACK_def)

text \<open>
  Claim C2. Position sizing returns \<open>floor (risk_amount / stop_distance)\<close> floored at one
  share, where \<open>risk_amount\<close> is the equity times the risk percent.
  \<^verbatim>\<open>RiskManager.calculate_position_size\<close>, which the engine calls, takes the risk percent
  from \<^verbatim>\<open>get_adjusted_risk_percent\<close> and widens the stop distance \<open>|entry - stop|\<close> to
  the larger of three median spreads and 0.5% of the entry price when it is smaller; it
  returns whenever that distance is not zero, which a positive entry price guarantees.
  \<^verbatim>\<open>indicators.calculate_position_size\<close> takes the risk percent as an argument and
  divides by \<open>|entry - stop|\<close> itself. Python's \<^verbatim>\<open>int\<close> truncates toward zero, which
  under the floor at one share is the same as rounding down. For equity 100000, risk
  percent 0.0075, entry 100 and stop 97 the stop distance is 3, the risk amount 750, and
  both functions return 250 shares.
\<close>

theorem position_sizing:
  "(widened_stop_distance entry stop spread \<noteq> 0 \<longrightarrow>
      RiskManager_calculate_position_size rm equity entry stop spread
        = Inr (max 1 \<lfloor>equity * get_adjusted_risk_percent rm equity
                         / widened_stop_distance entry stop spread\<rfloor>,
               of_int (max 1 \<lfloor>equity * get_adjusted_risk_percent rm equity
                                 / widened_stop_distance entry stop spread\<rfloor>)
                 * widened_stop_distance entry stop spread))
   \<and> widened_stop_distance entry stop spread
        = max \<bar>entry - stop\<bar> (max (spread * 3) (entry * 0.005))
   \<and> (0 < entry \<longrightarrow> widened_stop_distance entry stop spread \<noteq> 0)
   \<and> (entry \<noteq> stop \<longrightarrow>
        calculate_position_size equity risk_percent entry stop
          = max 1 \<lfloor>equity * risk_percent / \<bar>entry - stop\<bar>\<rfloor>)
   \<and> calculate_position_size 100000 0.0075 100 97 = 250
   \<and> (spread \<le> 1 \<longrightarrow>
        widened_stop_distance 100 97 spread = 3
        \<and> RiskManager_calculate_position_size RiskManager_init 100000 100 97 spread
            = Inr (250, 750))"
proof (intro conjI impI)
  assume "widened_stop_distance entry stop spread \<noteq> 0"
  then show "RiskManager_calculate_position_size rm equity entry stop spread
        = Inr (max 1 \<lfloor>equity * get_adjusted_risk_percent rm equity
                         / widened_stop_distance entry stop spread\<rfloor>,
               of_int (max 1 \<lfloor>equity * get_adjusted_risk_percent rm equity
                                 / widened_stop_distance entry stop spread\<rfloor>)
                 * widened_stop_distance entry stop spread)"
    by (simp add: RiskManager_calculate_position_size_def Let_def max_one_py_int)
next
  show "widened_stop_distance entry stop spread
        = max \<bar>entry - stop\<bar> (max (spread * 3) (entry * 0.005))"
    by (simp add: widened_stop_distance_max MIN_STOP_SPREAD_MULTIPLIER_def MIN_STOP_PERCENT_def)
next
  assume "0 < entry"
  then show "widened_stop_distance entry stop spread \<noteq> 0"
    using widened_stop_distance_pos [of entry stop spread] by simp
next
  assume "entry \<noteq> stop"
  then show "calculate_position_size equity risk_percent entry stop
          = max 1 \<lfloor>equity * risk_percent / \<bar>entry - stop\<bar>\<rfloor>"
    by (simp add: calculate_position_size_def Let_def max_one_py_int)
next
  show "calculate_position_size 100000 0.0075 100 97 = 250"
    by (simp add: calculate_position_size_def Let_def py_int_def)
next
  assume sp: "spread \<le> 1"
  then show w: "widened_stop_distance 100 97 spread = 3"
    by (simp add: widened_stop_distance_max MIN_STOP_SPREAD_MULTIPLIER_def MIN_STOP_PERCENT_def
        max_def)
  show "RiskManager_calculate_position_size RiskManager_init 100000 100 97 spread
            = Inr (250, 750)"
    by (simp add: RiskManager_calculate_position_size_def Let_def w base_risk_at_start
        RISK_PER_TRADE_def py_int_def)
qed

theorem position_sizing_witness:
  "widened_stop_distance 100 97 (1/100) \<noteq> 0
   \<and> RiskManager_calculate_position_size RiskManager_init 100000 100 97 (1/100) = Inr (250, 750)
   \<and> calculate_position_size 100000 0.0075 100 97 = 250"
  using position_sizing [of 100 97 "1/100" RiskManager_init 100000 "0.0075"]
  by (simp add: base_risk_at_start RISK_PER_TRADE_def)

lemma execute_entry_paused [simp]:
  "paused_until_next_session (snd (execute_entry ticker equity price stop spread completes rm))
     = paused_until_next_session rm"
  by (simp add: execute_entry_def register_trade_risk_def split: sum.splits prod.splits)

lemma execute_entry_losses [simp]:
  "consecutive_losses (snd (execute_entry ticker equity price stop spread completes rm))
     = consecutive_losses rm"
  by (simp add: execute_entry_def register_trade_risk_def split: sum.splits prod.splits)

lemma risk_step_keeps_pause:
  "paused_until_next_session rm \<Longrightarrow> \<not> is_rollover ev
     \<Longrightarrow> paused_until_next_session (risk_step ev rm)"
  by (cases ev)
     (simp_all add: exit_trade_def record_trade_result_def update_daily_pnl_def
        unregister_trade_risk_def check_daily_loss_limit_def check_circuit_breaker_def Let_def)

lemma risk_run_keeps_pause:
  "paused_until_next_session rm \<Longrightarrow> \<not> list_ex is_rollover evs
     \<Longrightarrow> paused_until_next_session (risk_run evs rm)"
  by (induction evs arbitrary: rm) (simp_all add: risk_step_keeps_pause)

lemma risk_step_loss:
  "is_loss ev \<Longrightarrow>
     consecutive_losses (risk_step ev rm) = consecutive_losses rm + 1
     \<and> (MAX_CONSECUTIVE_LOSSES \<le> consecutive_losses rm + 1
          \<longrightarrow> paused_until_next_session (risk_step ev rm))"
  by (cases ev)
     (auto simp: exit_trade_def record_trade_result_def update_daily_pnl_def
        unregister_trade_risk_def Let_def)

lemma risk_step_other:
  "\<not> is_loss ev \<Longrightarrow> \<not> is_win ev \<Longrightarrow> \<not> is_rollover ev
     \<Longrightarrow> consecutive_losses (risk_step ev rm) = consecutive_losses rm"
  by (cases ev)
     (auto simp: exit_trade_def check_daily_loss_limit_def check_circuit_breaker_def Let_def)

lemma losses_in_a_row_pause:
  "MAX_CONSECUTIVE_LOSSES \<le> consecutive_losses rm + int (length (filter is_loss evs))
     \<Longrightarrow> filter is_loss evs \<noteq> []
     \<Longrightarrow> \<not> list_ex is_rollover evs \<Longrightarrow> \<not> list_ex is_win evs
     \<Longrightarrow> paused_until_next_session (risk_run evs rm)"
proof (induction evs arbitrary: rm)
  case Nil
  then show ?case by simp
next
  case (Cons ev evs)
  from Cons.prems have nr: "\<not> is_rollover ev" "\<not> list_ex is_rollover evs"
    and nw: "\<not> is_win ev" "\<not> list_ex is_win evs" by simp_all
  show ?case
  proof (cases "is_loss ev")
    case True
    note step = risk_step_loss [OF True, of rm]
    show ?thesis
    proof (cases "MAX_CONSECUTIVE_LOSSES \<le> consecutive_losses rm + 1")
      case True
      with step have "paused_until_next_session (risk_step ev rm)" by simp
      then show ?thesis using nr(2) by (simp add: risk_run_keeps_pause)
    next
      case False
      with Cons.prems(1) \<open>is_loss ev\<close> have "filter is_loss evs \<noteq> []" by auto
      moreover have "MAX_CONSECUTIVE_LOSSES
          \<le> consecutive_losses (risk_step ev rm) + int (length (filter is_loss evs))"
        using Cons.prems(1) \<open>is_loss ev\<close> step by simp
      ultimately show ?thesis using Cons.IH nr(2) nw(2) by simp
    qed
  next
    case False
    then have "consecutive_losses (risk_step ev rm) = consecutive_losses rm"
      using nr(1) nw(1) by (simp add: risk_step_other)
    then show ?thesis using Cons.IH [of "risk_step ev rm"] Cons.prems False nr(2) nw(2) by simp
  qed
qed

lemma risk_run_append: "risk_run (evs @ later) rm = risk_run later (risk_run evs rm)"
  by (induction evs arbitrary: rm) simp_all

text \<open>
  Claim C10. Once \<open>MAX_CONSECUTIVE_LOSSES\<close> (3) losing trades have been recorded with no
  winning trade between them and no session rollover, \<^verbatim>\<open>paused_until_next_session\<close> is
  set and \<^verbatim>\<open>can_enter_new_trade\<close> returns \<^verbatim>\<open>False\<close>, and it stays so through whatever the
  engine does next until a rollover. A winning trade sets the counter to zero and does not
  change whether entries are allowed, so after a win two more losses leave entries enabled.
\<close>

theorem consecutive_loss_gate:
  "(0 \<le> consecutive_losses rm
      \<and> MAX_CONSECUTIVE_LOSSES \<le> int (length (filter is_loss evs))
      \<and> \<not> list_ex is_win evs \<and> \<not> list_ex is_rollover (evs @ later)
    \<longrightarrow> paused_until_next_session (risk_run (evs @ later) rm)
        \<and> \<not> can_enter_new_trade (risk_run (evs @ later) rm))
   \<and> (0 \<le> consecutive_losses rm \<longrightarrow>
        \<not> can_enter_new_trade
            (record_trade_result False (record_trade_result False (record_trade_result False rm))))
   \<and> consecutive_losses (record_trade_result True rm) = 0
   \<and> can_enter_new_trade (record_trade_result True rm) = can_enter_new_trade rm
   \<and> (can_enter_new_trade rm \<longrightarrow>
        can_enter_new_trade
          (record_trade_result False (record_trade_result False (record_trade_result True rm))))"
proof (intro conjI impI)
  assume h: "0 \<le> consecutive_losses rm
      \<and> MAX_CONSECUTIVE_LOSSES \<le> int (length (filter is_loss evs))
      \<and> \<not> list_ex is_win evs \<and> \<not> list_ex is_rollover (evs @ later)"
  then have ne: "filter is_loss evs \<noteq> []" by (auto simp: MAX_CONSECUTIVE_LOSSES_def)
  have "paused_until_next_session (risk_run evs rm)"
    using h ne by (intro losses_in_a_row_pause) auto
  then show p: "paused_until_next_session (risk_run (evs @ later) rm)"
    using h by (simp add: risk_run_append risk_run_keeps_pause)
  then show "\<not> can_enter_new_trade (risk_run (evs @ later) rm)"
    by (simp add: can_enter_new_trade_def)
next
  assume "0 \<le> consecutive_losses rm"
  then show "\<not> can_enter_new_trade
            (record_trade_result False (record_trade_result False (record_trade_result False rm)))"
    by (simp add: record_trade_result_def can_enter_new_trade_def Let_def
        MAX_CONSECUTIVE_LOSSES_def)
next
  show "consecutive_losses (record_trade_result True rm) = 0"
    by (simp add: record_trade_result_def)
next
  show "can_enter_new_trade (record_trade_result True rm) = can_enter_new_trade rm"
    by (simp add: record_trade_result_def can_enter_new_trade_def)
next
  assume "can_enter_new_trade rm"
  then show "can_enter_new_trade
          (record_trade_result False (record_trade_result False (record_trade_result True rm)))"
    by (simp add: record_trade_result_def can_enter_new_trade_def Let_def
        MAX_CONSECUTIVE_LOSSES_def split: if_splits)
qed

theorem consecutive_loss_gate_witness:
  "\<not> can_enter_new_trade
       (risk_run ([ExitTrade ''AAPL'' (- 10) True, CheckDailyLossLimit,
                   ExitTrade ''MSFT'' (- 5) True, ExitTrade ''JPM'' (- 1) True]
                  @ [ExitTrade ''V'' 20 True]) RiskManager_init)
   \<and> can_enter_new_trade
       (record_trade_result False (record_trade_result False
          (record_trade_result True RiskManager_init)))"
  using consecutive_loss_gate [of RiskManager_init
      "[ExitTrade ''AAPL'' (- 10) True, CheckDailyLossLimit,
        ExitTrade ''MSFT'' (- 5) True, ExitTrade ''JPM'' (- 1) True]"
      "[ExitTrade ''V'' 20 True]"]
  by (simp add: RiskManager_init_def MAX_CONSECUTIVE_LOSSES_def can_enter_new_trade_def
      record_trade_result_def Let_def)

lemma sum_update_le:
  fixes al :: "(string \<times> rat) list"
  shows "\<forall>w \<in> snd ` set al. 0 \<le> w
     \<Longrightarrow> sum_list (map snd (AList.update k v al)) \<le> sum_list (map snd al) + v"
  by (induction al) auto

lemma nonneg_update:
  fixes al :: "(string \<times> rat) list"
  shows "\<forall>w \<in> snd ` set al. 0 \<le> w \<Longrightarrow> 0 \<le> v
     \<Longrightarrow> \<forall>w \<in> snd ` set (AList.update k v al). 0 \<le> w"
  by (induction al) auto

lemma nonneg_delete:
  fixes al :: "(string \<times> rat) list"
  shows "\<forall>w \<in> snd ` set al. 0 \<le> w \<Longrightarrow> \<forall>w \<in> snd ` set (AList.delete k al). 0 \<le> w"
  by (auto simp: AList.delete_eq)

lemma position_size_risk_nonneg:
  assumes "RiskManager_calculate_position_size rm equity price stop spread = Inr (shares, risk)"
  shows "0 \<le> risk"
proof -
  let ?d = "widened_stop_distance price stop spread"
  from assms have "risk = of_int (max 1 (py_int (equity * get_adjusted_risk_percent rm equity / ?d))) * ?d"
    by (auto simp: RiskManager_calculate_position_size_def Let_def split: if_splits)
  moreover have "(0::rat) \<le> of_int (max 1 (py_int (equity * get_adjusted_risk_percent rm equity / ?d)))"
    by simp
  ultimately show ?thesis using widened_stop_distance_nonneg [of price stop spread] by simp
qed

lemma risk_step_nonneg:
  assumes "\<forall>w \<in> snd ` set (trade_risk rm). 0 \<le> w"
  shows "\<forall>w \<in> snd ` set (trade_risk (risk_step ev rm)). 0 \<le> w"
proof (cases ev)
  case (InitializeDay today equity)
  then show ?thesis using assms by (simp add: initialize_day_def Let_def)
next
  case (ExecuteEntry ticker equity price stop spread completes)
  show ?thesis
  proof (cases "RiskManager_calculate_position_size rm equity price stop (spread * price / 10000)")
    case (Inl e)
    then show ?thesis using assms ExecuteEntry by (simp add: execute_entry_def)
  next
    case (Inr r)
    obtain shares risk where r: "r = (shares, risk)" by (cases r)
    have "0 \<le> risk" using position_size_risk_nonneg Inr r by blast
    then have "\<forall>w \<in> snd ` set (AList.update ticker risk (trade_risk rm)). 0 \<le> w"
      using assms by (intro nonneg_update)
    then show ?thesis
      using assms ExecuteEntry Inr r by (simp add: execute_entry_def register_trade_risk_def)
  qed
next
  case (ExitTrade ticker pnl was_closed)
  then show ?thesis
    using assms nonneg_delete [OF assms, of ticker]
    by (simp add: exit_trade_def record_trade_result_def update_daily_pnl_def
        unregister_trade_risk_def Let_def)
next
  case CheckDailyLossLimit
  then show ?thesis using assms by (simp add: check_daily_loss_limit_def Let_def)
next
  case (CheckCircuitBreaker vix a m)
  then show ?thesis using assms by (simp add: check_circuit_breaker_def)
qed

lemma approved_within_cap:
  assumes nn: "\<forall>w \<in> snd ` set (trade_risk rm). 0 \<le> w"
    and ap: "approved ev rm = Some equity"
  shows "total_open_risk (risk_step ev rm) \<le> equity * TOTAL_OPEN_RISK_CAP"
proof (cases ev)
  case (ExecuteEntry ticker eq price stop spread completes)
  from ap ExecuteEntry obtain shares risk where
    sz: "RiskManager_calculate_position_size rm eq price stop (spread * price / 10000)
           = Inr (shares, risk)"
    and ok: "check_total_risk_capacity rm risk eq" and eq: "equity = eq"
    by (auto simp: execute_entry_def split: sum.splits prod.splits if_splits)
  have risk: "0 \<le> risk" using position_size_risk_nonneg sz by blast
  from ok have cap: "total_open_risk rm + risk \<le> eq * TOTAL_OPEN_RISK_CAP"
    by (simp add: check_total_risk_capacity_def Let_def split: if_splits)
  show ?thesis
  proof (cases completes)
    case True
    then have "risk_step ev rm = register_trade_risk ticker risk rm"
      using ExecuteEntry sz ok by (simp add: execute_entry_def)
    then have "total_open_risk (risk_step ev rm) \<le> total_open_risk rm + risk"
      using sum_update_le [OF nn] by (simp add: total_open_risk_def register_trade_risk_def)
    then show ?thesis using cap eq by simp
  next
    case False
    then have "risk_step ev rm = rm"
      using ExecuteEntry sz ok by (simp add: execute_entry_def)
    then show ?thesis using cap risk eq by simp
  qed
qed (use ap in simp_all)

lemma approvals_within_cap:
  "\<forall>w \<in> snd ` set (trade_risk rm). 0 \<le> w
     \<Longrightarrow> (equity, open_risk) \<in> set (approvals evs rm)
     \<Longrightarrow> open_risk \<le> equity * TOTAL_OPEN_RISK_CAP"
proof (induction evs arbitrary: rm)
  case Nil
  then show ?case by simp
next
  case (Cons ev evs)
  from Cons.prems(2) consider
    (head) "approved ev rm = Some equity" "open_risk = total_open_risk (risk_step ev rm)"
    | (tail) "(equity, open_risk) \<in> set (approvals evs (risk_step ev rm))"
    by (auto simp: Let_def split: option.splits)
  then show ?case
  proof cases
    case head
    then show ?thesis using approved_within_cap [OF Cons.prems(1)] by simp
  next
    case tail
    then show ?thesis using Cons.IH [OF risk_step_nonneg [OF Cons.prems(1)]] by simp
  qed
qed

text \<open>
  Claim C1. Through any sequence of entries, exits and other calls on the risk manager,
  right after every entry that \<^verbatim>\<open>check_total_risk_capacity\<close> approved the sum of the
  registered open-risk amounts is at most the equity of that approval times
  \<open>TOTAL_OPEN_RISK_CAP\<close>, whether the entry went on to \<^verbatim>\<open>register_trade_risk\<close> or was
  abandoned before. It holds from any state whose registered amounts are not negative, in
  particular from a new \<^verbatim>\<open>RiskManager\<close>; the amounts stay non-negative because
  \<^verbatim>\<open>calculate_position_size\<close> returns at least one share times a non-negative distance.
\<close>

theorem total_open_risk_never_exceeds_cap:
  "((\<forall>w \<in> snd ` set (trade_risk rm). 0 \<le> w) \<longrightarrow>
      (\<forall>(equity, open_risk) \<in> set (approvals evs rm). open_risk \<le> equity * TOTAL_OPEN_RISK_CAP))
   \<and> (\<forall>(equity, open_risk) \<in> set (approvals evs RiskManager_init).
         open_risk \<le> equity * TOTAL_OPEN_RISK_CAP)"
proof -
  have "\<forall>w \<in> snd ` set (trade_risk RiskManager_init). 0 \<le> w"
    by (simp add: RiskManager_init_def)
  then show ?thesis using approvals_within_cap by blast
qed

lemma session_events_approvals:
  "approvals session_events RiskManager_init
     = [(100000, 750), (100000, 1500), (100000, 1500), (100000, 2250), (100000, 3000),
        (99000, 2991)]"
  by code_simp

theorem total_open_risk_never_exceeds_cap_witness:
  "approvals session_events RiskManager_init
     = [(100000, 750), (100000, 1500), (100000, 1500), (100000, 2250), (100000, 3000),
        (99000, 2991)]
   \<and> list_all (\<lambda>(equity, open_risk). open_risk \<le> equity * TOTAL_OPEN_RISK_CAP)
         (approvals session_events RiskManager_init)"
proof -
  have a: "approvals session_events RiskManager_init
     = [(100000, 750), (100000, 1500), (100000, 1500), (100000, 2250), (100000, 3000),
        (99000, 2991)]"
    by (rule session_events_approvals)
  from total_open_risk_never_exceeds_cap [of RiskManager_init session_events]
  have "\<forall>(equity, open_risk) \<in> set (approvals session_events RiskManager_init).
          open_risk \<le> equity * TOTAL_OPEN_RISK_CAP"
    by (rule conjunct2)
  then have b: "list_all (\<lambda>(equity, open_risk). open_risk \<le> equity * TOTAL_OPEN_RISK_CAP)
         (approvals session_events RiskManager_init)"
    by (simp only: list_all_iff)
  show ?thesis using a b by (rule conjI)
qed

section \<open>Properties of the kill-switch counter\<close>

lemma track_errors_append:
  "track_errors (xs @ ys) om = track_errors ys (track_errors xs om)"
  by (induction xs arbitrary: om) simp_all

lemma track_error_last [simp]: "last_error_time (track_error now om) = Some now"
  by (simp add: track_error_def Let_def split: option.splits)

lemma track_errors_last:
  "ts \<noteq> [] \<Longrightarrow> last_error_time (track_errors ts om) = Some (last ts)"
  by (induction ts arbitrary: om) auto

lemma track_error_first: "0 \<le> error_count om \<Longrightarrow> 1 \<le> error_count (track_error now om)"
  by (simp add: track_error_def Let_def split: option.splits)

lemma track_error_reset:
  "last_error_time om = Some t \<Longrightarrow> now - t > KILL_SWITCH_WINDOW_MINUTES * 60
     \<Longrightarrow> error_count (track_error now om) = 1"
  by (simp add: track_error_def Let_def)

lemma track_errors_run:
  "last_error_time om = Some t \<Longrightarrow> gaps_within_window (t # ts)
     \<Longrightarrow> error_count (track_errors ts om) = error_count om + int (length ts)"
proof (induction ts arbitrary: om t)
  case Nil
  then show ?case by simp
next
  case (Cons now ts)
  from Cons.prems have step: "error_count (track_error now om) = error_count om + 1"
    by (simp add: track_error_def Let_def)
  from Cons.prems have "gaps_within_window (now # ts)" by simp
  then have "error_count (track_errors ts (track_error now om))
               = error_count (track_error now om) + int (length ts)"
    by (intro Cons.IH [of _ now]) simp_all
  then show ?case using step by simp
qed

lemma within_one_window:
  "\<forall>x \<in> set ts. \<forall>y \<in> set ts. y - x \<le> KILL_SWITCH_WINDOW_MINUTES * 60
     \<Longrightarrow> gaps_within_window ts"
  by (induction ts rule: gaps_within_window.induct) auto

lemma run_trips:
  assumes "0 \<le> error_count om" "gaps_within_window ts"
    "KILL_SWITCH_ERROR_COUNT \<le> int (length ts)"
  shows "should_trigger_kill_switch (track_errors ts om)"
proof (cases ts)
  case Nil
  then show ?thesis using assms by (simp add: KILL_SWITCH_ERROR_COUNT_def)
next
  case (Cons t rest)
  have "error_count (track_errors rest (track_error t om))
          = error_count (track_error t om) + int (length rest)"
    using assms(2) Cons by (intro track_errors_run [of _ t]) simp_all
  then show ?thesis
    using track_error_first [OF assms(1), of t] assms(3) Cons
    by (simp add: should_trigger_kill_switch_def)
qed

lemma gap_restarts:
  assumes "b - a > KILL_SWITCH_WINDOW_MINUTES * 60" "gaps_within_window (b # post)"
  shows "error_count (track_errors (pre @ a # b # post) om) = 1 + int (length post)"
proof -
  let ?om1 = "track_errors (pre @ [a]) om"
  have l: "last_error_time ?om1 = Some a" using track_errors_last [of "pre @ [a]" om] by simp
  have one: "error_count (track_error b ?om1) = 1" using track_error_reset [OF l assms(1)] .
  have "error_count (track_errors post (track_error b ?om1))
          = error_count (track_error b ?om1) + int (length post)"
    using assms(2) by (intro track_errors_run [of _ b]) simp_all
  moreover have "track_errors (pre @ a # b # post) om = track_errors post (track_error b ?om1)"
    using track_errors_append [of "pre @ [a]" "b # post" om] by simp
  ultimately show ?thesis using one by simp
qed

text \<open>
  Claim C3, as the code has it. \<^verbatim>\<open>_track_error\<close> keeps one counter and the time of the
  last error, and restarts the counter when an error comes more than the window after the
  one before it. So the kill-switch trips when \<open>KILL_SWITCH_ERROR_COUNT\<close> errors fall
  within one window of \<open>KILL_SWITCH_WINDOW_MINUTES\<close>, and more generally whenever each of
  them follows the previous one by at most the window. An error that comes more than the
  window after its predecessor restarts the count at one, so the switch then trips only if
  that error and the ones after it, each within the window of the one before, number at least
  \<open>KILL_SWITCH_ERROR_COUNT\<close>. For three errors counted from a new \<^verbatim>\<open>OrderManager\<close> the
  switch trips exactly when both gaps between consecutive errors are within the window.
\<close>

theorem kill_switch_counts_consecutive_gaps:
  "((\<forall>x \<in> set ts. \<forall>y \<in> set ts. y - x \<le> KILL_SWITCH_WINDOW_MINUTES * 60)
      \<and> 0 \<le> error_count om \<and> KILL_SWITCH_ERROR_COUNT \<le> int (length ts)
     \<longrightarrow> should_trigger_kill_switch (track_errors ts om))
   \<and> (gaps_within_window ts \<and> 0 \<le> error_count om \<and> KILL_SWITCH_ERROR_COUNT \<le> int (length ts)
     \<longrightarrow> should_trigger_kill_switch (track_errors ts om))
   \<and> (b - a > KILL_SWITCH_WINDOW_MINUTES * 60 \<and> gaps_within_window (b # post)
     \<longrightarrow> (should_trigger_kill_switch (track_errors (pre @ a # b # post) om)
            \<longleftrightarrow> KILL_SWITCH_ERROR_COUNT \<le> 1 + int (length post)))
   \<and> (int (length ts) = KILL_SWITCH_ERROR_COUNT
     \<longrightarrow> (should_trigger_kill_switch (track_errors ts OrderManager_init)
            \<longleftrightarrow> gaps_within_window ts))"
proof (intro conjI impI)
  assume "(\<forall>x \<in> set ts. \<forall>y \<in> set ts. y - x \<le> KILL_SWITCH_WINDOW_MINUTES * 60)
      \<and> 0 \<le> error_count om \<and> KILL_SWITCH_ERROR_COUNT \<le> int (length ts)"
  then show "should_trigger_kill_switch (track_errors ts om)"
    using run_trips within_one_window by blast
next
  assume "gaps_within_window ts \<and> 0 \<le> error_count om
      \<and> KILL_SWITCH_ERROR_COUNT \<le> int (length ts)"
  then show "should_trigger_kill_switch (track_errors ts om)"
    using run_trips by blast
next
  assume "b - a > KILL_SWITCH_WINDOW_MINUTES * 60 \<and> gaps_within_window (b # post)"
  then have "error_count (track_errors (pre @ a # b # post) om) = 1 + int (length post)"
    using gap_restarts by blast
  then show "should_trigger_kill_switch (track_errors (pre @ a # b # post) om)
            \<longleftrightarrow> KILL_SWITCH_ERROR_COUNT \<le> 1 + int (length post)"
    by (simp add: should_trigger_kill_switch_def)
next
  assume "int (length ts) = KILL_SWITCH_ERROR_COUNT"
  then have "length ts = 3" by (simp add: KILL_SWITCH_ERROR_COUNT_def)
  then obtain a b c where ts: "ts = [a, b, c]"
    by (auto simp: numeral_3_eq_3 length_Suc_conv)
  show "should_trigger_kill_switch (track_errors ts OrderManager_init)
            \<longleftrightarrow> gaps_within_window ts"
    unfolding ts
    by (simp add: should_trigger_kill_switch_def track_error_def OrderManager_init_def Let_def
        KILL_SWITCH_ERROR_COUNT_def)
qed

theorem kill_switch_counts_consecutive_gaps_witness:
  "should_trigger_kill_switch (track_errors [0, 300, 600] OrderManager_init)
   \<and> \<not> should_trigger_kill_switch (track_errors [0, 700, 800] OrderManager_init)
   \<and> gaps_within_window [0, 300, 600] \<and> \<not> gaps_within_window [0, 700, 800]"
  using kill_switch_counts_consecutive_gaps [of "[0, 300, 600]" OrderManager_init 0 0 "[]" "[]"]
    kill_switch_counts_consecutive_gaps [of "[0, 700, 800]" OrderManager_init 700 0 "[800]" "[]"]
  by (simp add: KILL_SWITCH_WINDOW_MINUTES_def KILL_SWITCH_ERROR_COUNT_def OrderManager_init_def)

text \<open>
  Claim C3 as stated fails: three errors six minutes apart span twelve minutes, longer than
  the window of ten, and still trip the switch, because no single gap exceeds the window.
\<close>

theorem kill_switch_span_counterexample:
  "should_trigger_kill_switch (track_errors [0, 360, 720] OrderManager_init)
   \<and> (720 :: rat) - 0 > KILL_SWITCH_WINDOW_MINUTES * 60
   \<and> int (length [0, 360, 720 :: rat]) = KILL_SWITCH_ERROR_COUNT"
  by (simp add: should_trigger_kill_switch_def track_error_def OrderManager_init_def Let_def
      KILL_SWITCH_ERROR_COUNT_def KILL_SWITCH_WINDOW_MINUTES_def)

section \<open>Properties of the state manager\<close>

text \<open>
  Claim C4, as the code has it. \<^verbatim>\<open>_load_state\<close> never raises. When the state file is
  absent, and equally when it exists but \<^verbatim>\<open>open\<close> or \<^verbatim>\<open>json.load\<close> raises on it, the
  result is the default state, whose ledger is empty and whose kill-switch is off; a file
  that parses is returned as it is.
\<close>

theorem load_state_never_fails:
  "load_state NoFile = Inr default_state
   \<and> load_state (Unreadable e) = Inr default_state
   \<and> load_state (Stored s) = Inr s
   \<and> (\<exists>st. load_state f = Inr st)
   \<and> active_trades default_state = []
   \<and> \<not> is_kill_switch_active default_state"
  by (cases f)
     (simp_all add: load_state_def path_exists_def json_load_def default_state_def
        is_kill_switch_active_def)

theorem load_state_never_fails_witness:
  "load_state (Unreadable JSONDecodeError) = Inr default_state
   \<and> load_state (Stored (default_state\<lparr> kill_switch_active := True \<rparr>))
       = Inr (default_state\<lparr> kill_switch_active := True \<rparr>)"
  using load_state_never_fails [of JSONDecodeError "default_state\<lparr> kill_switch_active := True \<rparr>"]
  by simp

text \<open>
  Claim C4 as stated fails: on a state file that cannot be parsed, loading does not fail
  but returns the default state with the kill-switch off, on which the trading loop runs.
\<close>

theorem corrupt_state_file_counterexample:
  "load_state (Unreadable JSONDecodeError) = Inr default_state
   \<and> load_state (Unreadable JSONDecodeError) \<noteq> Inl JSONDecodeError
   \<and> \<not> is_kill_switch_active default_state"
  by (simp add: load_state_def path_exists_def json_load_def default_state_def
      is_kill_switch_active_def)

lemma report_untracked_filter:
  "report_untracked state_symbols broker_positions d
     = d\<lparr> missing_in_state :=
            missing_in_state d @ filter (\<lambda>pos. pos_symbol pos \<notin> state_symbols) broker_positions \<rparr>"
  by (induction broker_positions arbitrary: d) simp_all

lemma purge_stale_returns:
  "purge_stale broker_symbols items d st = (Inr d', st') \<Longrightarrow> d' = d \<and> st' = st"
  by (induction items) (auto split: if_splits)

lemma purge_stale_no_stale:
  "\<forall>(trade_id, t) \<in> set items. symbol t \<in> broker_symbols
     \<Longrightarrow> purge_stale broker_symbols items d st = (Inr d, st)"
  by (induction items) auto

lemma purge_stale_raises:
  "\<exists>(trade_id, t) \<in> set items. symbol t \<notin> broker_symbols
     \<Longrightarrow> fst (purge_stale broker_symbols items d st) = Inl RuntimeError"
  by (induction items) fastforce+

lemma reconcile_positions_returns:
  assumes "reconcile_positions broker_positions st = (Inr d, st')"
  shows "st' = st"
    and "d = \<lparr> missing_in_state =
                  filter (\<lambda>pos. pos_symbol pos \<notin> symbol ` snd ` set (active_trades st))
                    broker_positions,
                missing_in_broker = [], qty_mismatch = [] \<rparr>"
proof -
  let ?ss = "set (map (\<lambda>(trade_id, t). symbol t) (get_active_trades st))"
  have ss: "?ss = symbol ` snd ` set (active_trades st)"
    by (force simp: get_active_trades_def)
  have ss': "(\<lambda>(trade_id, t). symbol t) ` set (get_active_trades st)
               = symbol ` snd ` set (active_trades st)"
    using ss by simp
  from assms have p: "purge_stale (set (map pos_symbol broker_positions)) (get_active_trades st)
      (report_untracked ?ss broker_positions
         \<lparr> missing_in_state = [], missing_in_broker = [], qty_mismatch = [] \<rparr>) st = (Inr d, st')"
    by (simp add: reconcile_positions_def Let_def)
  from purge_stale_returns [OF p] show "st' = st" by simp
  from purge_stale_returns [OF p] show "d = \<lparr> missing_in_state =
                  filter (\<lambda>pos. pos_symbol pos \<notin> symbol ` snd ` set (active_trades st))
                    broker_positions,
                missing_in_broker = [], qty_mismatch = [] \<rparr>"
    by (simp add: report_untracked_filter ss')
qed

lemma reconcile_positions_raises_iff:
  "fst (reconcile_positions broker_positions st) = Inl RuntimeError
     \<longleftrightarrow> (\<exists>(trade_id, t) \<in> set (active_trades st). symbol t \<notin> pos_symbol ` set broker_positions)"
proof (cases "\<exists>(trade_id, t) \<in> set (active_trades st). symbol t \<notin> pos_symbol ` set broker_positions")
  case True
  then show ?thesis
    using purge_stale_raises [of "active_trades st" "set (map pos_symbol broker_positions)"]
    by (simp add: reconcile_positions_def get_active_trades_def Let_def)
next
  case False
  then have "\<forall>(trade_id, t) \<in> set (active_trades st). symbol t \<in> set (map pos_symbol broker_positions)"
    by auto
  from purge_stale_no_stale [OF this] False show ?thesis
    by (simp add: reconcile_positions_def get_active_trades_def Let_def)
qed

text \<open>
  Claim C6, as the code has it. When a call of \<^verbatim>\<open>reconcile_positions\<close> returns, a second
  call with the same broker positions returns the same discrepancies again and leaves the
  state as it is: \<^verbatim>\<open>missing_in_broker\<close> and \<^verbatim>\<open>qty_mismatch\<close> are empty, and
  \<^verbatim>\<open>missing_in_state\<close> lists, on every call, the broker positions whose symbol no trade of
  the state carries, since the call reports them and does not adopt them.
\<close>

theorem reconcile_positions_second_call:
  "reconcile_positions broker_positions st = (Inr d, st') \<longrightarrow>
     reconcile_positions broker_positions st' = (Inr d, st')
     \<and> st' = st
     \<and> missing_in_state d
         = filter (\<lambda>pos. pos_symbol pos \<notin> symbol ` snd ` set (active_trades st)) broker_positions
     \<and> missing_in_broker d = []
     \<and> qty_mismatch d = []"
proof
  assume a: "reconcile_positions broker_positions st = (Inr d, st')"
  note r = reconcile_positions_returns [OF a]
  show "reconcile_positions broker_positions st' = (Inr d, st')
     \<and> st' = st
     \<and> missing_in_state d
         = filter (\<lambda>pos. pos_symbol pos \<notin> symbol ` snd ` set (active_trades st)) broker_positions
     \<and> missing_in_broker d = []
     \<and> qty_mismatch d = []"
    using a r(1) by (simp add: r(2))
qed

lemma untracked_first_call:
  "reconcile_positions [sample_position ''AAPL'' 100] default_state
     = (Inr \<lparr> missing_in_state = [sample_position ''AAPL'' 100], missing_in_broker = [],
              qty_mismatch = [] \<rparr>, default_state)"
  by (simp add: reconcile_positions_def get_active_trades_def default_state_def Let_def)

theorem reconcile_positions_second_call_witness:
  "reconcile_positions [sample_position ''AAPL'' 100] default_state
     = (Inr \<lparr> missing_in_state = [sample_position ''AAPL'' 100], missing_in_broker = [],
              qty_mismatch = [] \<rparr>, default_state)
   \<and> reconcile_positions [sample_position ''AAPL'' 100]
        (snd (reconcile_positions [sample_position ''AAPL'' 100] default_state))
     = (Inr \<lparr> missing_in_state = [sample_position ''AAPL'' 100], missing_in_broker = [],
              qty_mismatch = [] \<rparr>, default_state)"
  using reconcile_positions_second_call [of "[sample_position ''AAPL'' 100]" default_state
      "\<lparr> missing_in_state = [sample_position ''AAPL'' 100], missing_in_broker = [],
              qty_mismatch = [] \<rparr>" default_state] untracked_first_call
  by simp

text \<open>
  Claim C6 as stated fails: with one position at the broker and an empty ledger, the second
  of two calls again returns a non-empty \<^verbatim>\<open>missing_in_state\<close>.
\<close>

theorem reconcile_twice_counterexample:
  "fst (reconcile_positions [sample_position ''AAPL'' 100]
          (snd (reconcile_positions [sample_position ''AAPL'' 100] default_state)))
     = Inr \<lparr> missing_in_state = [sample_position ''AAPL'' 100], missing_in_broker = [],
              qty_mismatch = [] \<rparr>
   \<and> [sample_position ''AAPL'' 100] \<noteq> []"
  by (simp add: untracked_first_call)

text \<open>
  Claim C5 at two inputs. With 100 shares of AAPL at the broker and a trade of 50 shares of
  AAPL in the state, \<^verbatim>\<open>reconcile_positions\<close> returns three empty lists: nothing is ever
  appended to \<^verbatim>\<open>qty_mismatch\<close>. With AAPL at the broker and trades in AAPL, MSFT and TSLA
  in the state, the call removes the MSFT trade and then raises \<^verbatim>\<open>RuntimeError\<close>, since
  it deletes from the dictionary it is iterating over; no discrepancies are returned and the
  TSLA trade stays in the ledger.
\<close>

theorem reconcile_positions_misses:
  "reconcile_positions [sample_position ''AAPL'' 100]
       (default_state\<lparr> active_trades := [(''T1'', sample_trade ''AAPL'' 50)] \<rparr>)
     = (Inr \<lparr> missing_in_state = [], missing_in_broker = [], qty_mismatch = [] \<rparr>,
        default_state\<lparr> active_trades := [(''T1'', sample_trade ''AAPL'' 50)] \<rparr>)
   \<and> pos_qty (sample_position ''AAPL'' 100) \<noteq> of_int (qty (sample_trade ''AAPL'' 50))
   \<and> reconcile_positions [sample_position ''AAPL'' 100]
       (default_state\<lparr> active_trades :=
          [(''T1'', sample_trade ''AAPL'' 100), (''T2'', sample_trade ''MSFT'' 10),
           (''T3'', sample_trade ''TSLA'' 5)] \<rparr>)
     = (Inl RuntimeError,
        default_state\<lparr> active_trades :=
          [(''T1'', sample_trade ''AAPL'' 100), (''T3'', sample_trade ''TSLA'' 5)] \<rparr>)"
  by (simp add: reconcile_positions_def get_active_trades_def remove_trade_def Let_def
      default_state_def sample_trade_def sample_position_def)

section \<open>Properties of the trailing-stop ratchet\<close>

lemma engine_update_stop_calls:
  "broker_calls (engine_update_stop stop_order trade_id trd new_stop eng) \<noteq> broker_calls eng"
  by (simp add: engine_update_stop_def Let_def split: option.splits)

lemma engine_update_stop_stored:
  "map_of (active_trades (state_manager (engine_update_stop stop_order trade_id trd new_stop eng)))
       trade_id
     = (case stop_order of
          None \<Rightarrow> map_of (active_trades (state_manager eng)) trade_id
        | Some new_id \<Rightarrow> Some (trd\<lparr> stop_price := new_stop \<rparr>))"
  by (simp add: engine_update_stop_def Let_def update_stop_def update_trade_def update_conv'
      split: option.splits)

lemma engine_update_stop_pending:
  "map_of (pending_stops (state_manager (engine_update_stop stop_order trade_id trd new_stop eng)))
       (symbol trd)
     = (case stop_order of
          None \<Rightarrow> map_of (pending_stops (state_manager eng)) (symbol trd)
        | Some new_id \<Rightarrow> Some \<lparr> order_id = new_id, pending_stop_price = new_stop \<rparr>)"
  by (simp add: engine_update_stop_def Let_def update_stop_def update_trade_def update_conv'
      split: option.splits)

text \<open>
  Claim C7. In the trailing-stop step of exit management, when the recomputed stop is not
  strictly more favorable than the trade's current stop (higher for a long trade, lower
  for a short one), nothing changes: the stored trade, the pending stop and the orders sent
  to the broker stay as they were. Orders go to the broker exactly when the recomputed stop
  is strictly more favorable. The stored stop of the trade is never loosened, whatever the
  broker answers; when the new stop order is accepted, the stored stop and the pending stop
  both become the recomputed stop.
\<close>

theorem trailing_stop_ratchet:
  "(\<not> more_favorable (side trd = ''long'')
         (calculate_trailing_stop (entry_price trd) current_price atr (vol_regime trd)
            (side trd = ''long'') 1.5 2.5)
         (stop_price trd)
      \<longrightarrow> ratchet_stop stop_order trade_id trd current_price atr eng = eng)
   \<and> (broker_calls (ratchet_stop stop_order trade_id trd current_price atr eng) \<noteq> broker_calls eng
      \<longleftrightarrow> (if side trd = ''long''
           then calculate_trailing_stop (entry_price trd) current_price atr (vol_regime trd)
                  True 1.5 2.5 > stop_price trd
           else calculate_trailing_stop (entry_price trd) current_price atr (vol_regime trd)
                  False 1.5 2.5 < stop_price trd))
   \<and> (map_of (active_trades (state_manager eng)) trade_id = Some trd
      \<longrightarrow> (\<exists>trd'. map_of (active_trades (state_manager
                        (ratchet_stop stop_order trade_id trd current_price atr eng))) trade_id
                     = Some trd'
                 \<and> side trd' = side trd
                 \<and> (if side trd = ''long'' then stop_price trd \<le> stop_price trd'
                     else stop_price trd' \<le> stop_price trd)))
   \<and> (more_favorable (side trd = ''long'')
         (calculate_trailing_stop (entry_price trd) current_price atr (vol_regime trd)
            (side trd = ''long'') 1.5 2.5)
         (stop_price trd)
      \<longrightarrow> map_of (pending_stops (state_manager
                     (ratchet_stop (Some new_id) trade_id trd current_price atr eng))) (symbol trd)
            = Some \<lparr> order_id = new_id,
                     pending_stop_price =
                       calculate_trailing_stop (entry_price trd) current_price atr
                         (vol_regime trd) (side trd = ''long'') 1.5 2.5 \<rparr>
          \<and> map_of (active_trades (state_manager
                     (ratchet_stop (Some new_id) trade_id trd current_price atr eng))) trade_id
            = Some (trd\<lparr> stop_price :=
                       calculate_trailing_stop (entry_price trd) current_price atr
                         (vol_regime trd) (side trd = ''long'') 1.5 2.5 \<rparr>))"
proof (intro conjI impI)
  let ?new = "calculate_trailing_stop (entry_price trd) current_price atr (vol_regime trd)
            (side trd = ''long'') 1.5 2.5"
  let ?fav = "more_favorable (side trd = ''long'') ?new (stop_price trd)"
  let ?r = "ratchet_stop stop_order trade_id trd current_price atr eng"
  have unfold: "ratchet_stop so trade_id trd current_price atr eng
              = (if ?fav then engine_update_stop so trade_id trd ?new eng else eng)" for so
    by (simp add: ratchet_stop_def Let_def)
  {
    assume "\<not> ?fav"
    then show "?r = eng" by (simp add: unfold)
  }
  show "broker_calls ?r \<noteq> broker_calls eng
      \<longleftrightarrow> (if side trd = ''long''
           then calculate_trailing_stop (entry_price trd) current_price atr (vol_regime trd)
                  True 1.5 2.5 > stop_price trd
           else calculate_trailing_stop (entry_price trd) current_price atr (vol_regime trd)
                  False 1.5 2.5 < stop_price trd)"
    using engine_update_stop_calls [of stop_order trade_id trd ?new eng]
    by (auto simp: unfold more_favorable_def)
  {
    assume stored: "map_of (active_trades (state_manager eng)) trade_id = Some trd"
    show "\<exists>trd'. map_of (active_trades (state_manager ?r)) trade_id = Some trd'
                 \<and> side trd' = side trd
                 \<and> (if side trd = ''long'' then stop_price trd \<le> stop_price trd'
                     else stop_price trd' \<le> stop_price trd)"
    proof (cases ?fav)
      case False
      then show ?thesis using stored by (simp add: unfold)
    next
      case True
      then show ?thesis
        using stored engine_update_stop_stored [of stop_order trade_id trd ?new eng]
        by (cases stop_order) (auto simp: unfold more_favorable_def)
    qed
  }
  {
    assume fav: ?fav
    show "map_of (pending_stops (state_manager
                     (ratchet_stop (Some new_id) trade_id trd current_price atr eng))) (symbol trd)
            = Some \<lparr> order_id = new_id, pending_stop_price = ?new \<rparr>"
      using fav engine_update_stop_pending [of "Some new_id" trade_id trd ?new eng]
      by (simp add: unfold)
    show "map_of (active_trades (state_manager
                     (ratchet_stop (Some new_id) trade_id trd current_price atr eng))) trade_id
            = Some (trd\<lparr> stop_price := ?new \<rparr>)"
      using fav engine_update_stop_stored [of "Some new_id" trade_id trd ?new eng]
      by (simp add: unfold)
  }
qed

theorem trailing_stop_ratchet_witness:
  "ratchet_stop (Some ''S2'') ''T1'' (sample_trade ''AAPL'' 250) 99 1 sample_engine = sample_engine
   \<and> broker_calls (ratchet_stop (Some ''S2'') ''T1'' (sample_trade ''AAPL'' 250) 104 1 sample_engine)
       = [CancelOrder ''S1'', SubmitStopOrder ''AAPL'' 250 ''sell'' (203 / 2)]
   \<and> map_of (pending_stops (state_manager
         (ratchet_stop (Some ''S2'') ''T1'' (sample_trade ''AAPL'' 250) 104 1 sample_engine))) ''AAPL''
       = Some \<lparr> order_id = ''S2'', pending_stop_price = 203 / 2 \<rparr>"
proof -
  note t1 = trailing_stop_ratchet [of "sample_trade ''AAPL'' 250" 99 1 "Some ''S2''" "''T1''"
      sample_engine "''S2''"]
  note t2 = trailing_stop_ratchet [of "sample_trade ''AAPL'' 250" 104 1 "Some ''S2''" "''T1''"
      sample_engine "''S2''"]
  have a: "ratchet_stop (Some ''S2'') ''T1'' (sample_trade ''AAPL'' 250) 99 1 sample_engine
             = sample_engine"
    using t1 by (simp add: sample_trade_def calculate_trailing_stop_def more_favorable_def)
  have b: "map_of (pending_stops (state_manager
         (ratchet_stop (Some ''S2'') ''T1'' (sample_trade ''AAPL'' 250) 104 1 sample_engine))) ''AAPL''
       = Some \<lparr> order_id = ''S2'', pending_stop_price = 203 / 2 \<rparr>"
    using t2 by (simp add: sample_trade_def calculate_trailing_stop_def more_favorable_def)
  have c: "broker_calls (ratchet_stop (Some ''S2'') ''T1'' (sample_trade ''AAPL'' 250) 104 1 sample_engine)
       = [CancelOrder ''S1'', SubmitStopOrder ''AAPL'' 250 ''sell'' (203 / 2)]"
    by (simp add: ratchet_stop_def engine_update_stop_def sample_engine_def sample_trade_def
        more_favorable_def calculate_trailing_stop_def Let_def get_pending_stops_def default_state_def)
  show ?thesis using a c b by simp
qed

end
